theory Spec2Isabelle
  imports Main "HOL-Library.Sublist"
begin

section \<open>Machine integers and time\<close>

text \<open>
  Go's \<open>int\<close> is a 64-bit two's complement integer on the target (the binary is built
  for amd64). It is modelled as an \<open>int\<close> kept in range by \<open>wrap64\<close>, which is applied
  wherever the source adds.
\<close>

definition wrap64 :: "int \<Rightarrow> int" where
  "wrap64 x = (x + 2 ^ 63) mod 2 ^ 64 - 2 ^ 63"

definition max_int64 :: int where
  "max_int64 = 2 ^ 63 - 1"

text \<open>Go strings are byte sequences, as \<open>string\<close> is. Three bytes have a name below.\<close>

definition newline :: char where
  "newline = CHR 0x0A"

definition carriage_return :: char where
  "carriage_return = CHR 0x0D"

definition tab :: char where
  "tab = CHR 0x09"

text \<open>
  A \<open>time.Time\<close> is an instant on the wall clock, here a tick count; the zero value of
  the Go type is \<open>0\<close>. Every operation that reads \<open>time.Now()\<close> takes the instant as
  its argument \<open>now\<close>.
\<close>

type_synonym time = nat

section \<open>The stack store (FlowerStackManager)\<close>

text \<open>
  The three structs of the store. The fields keep their Go names; those of the two
  node types carry the prefix \<open>srv_\<close> or \<open>cli_\<close>, since both structs have a \<open>NodeID\<close>,
  a \<open>Status\<close> and so on. The client nodes are a Go map from node id to node.
\<close>

record FlowerServerNode =
  srv_NodeID :: string
  srv_Hostname :: string
  srv_IP :: string
  srv_SuperlinkAddress :: string
  srv_ServerAppIOAPIPort :: int
  srv_FleetAPIPort :: int
  srv_ControlAPIPort :: int
  srv_SuperexecAddress :: string
  srv_Status :: string
  srv_StartedAt :: time

record FlowerClientNode =
  cli_NodeID :: string
  cli_Hostname :: string
  cli_IP :: string
  cli_SupernodeAddress :: string
  cli_ClientAppIOAPIPort :: int
  cli_SuperexecAddress :: string
  cli_Status :: string
  cli_StartedAt :: time

record FlowerStackState =
  JobID :: string
  Status :: string
  NumNodes :: int
  ServerNode :: "FlowerServerNode option"
  ClientNodes :: "string \<rightharpoonup> FlowerClientNode"
  StartTime :: time
  CompletionTime :: time
  ExpectedNodes :: int
  CompletedNodes :: int

text \<open>
  The manager holds a pointer \<open>state\<close> that is \<open>nil\<close> until \<open>InitializeStack\<close> and
  after \<open>ClearState\<close>: an option. Every method runs under the manager's lock, so each
  is one atomic step from manager state to manager state. The logger only prints and
  is left out. The store keeps the pointers it is given; the HTTP handlers build a new
  node for every request and do not touch it after the call, so a stored node changes
  only through the store, and nodes are values here.
\<close>

type_synonym manager = "FlowerStackState option"

datatype store_error =
  StackNotInitialized
  | ServerNodeNotFound
  | ClientNodeNotFound string

definition NewFlowerStackManager :: manager where
  "NewFlowerStackManager = None"

definition InitializeStack :: "string \<Rightarrow> int \<Rightarrow> time \<Rightarrow> manager \<Rightarrow> manager" where
  "InitializeStack jobID numNodes now m =
     Some \<lparr> JobID = jobID,
            Status = ''pending'',
            NumNodes = numNodes,
            ServerNode = None,
            ClientNodes = Map.empty,
            StartTime = now,
            CompletionTime = 0,
            ExpectedNodes = wrap64 (1 + numNodes),
            CompletedNodes = 0 \<rparr>"

definition checkCompletion :: "time \<Rightarrow> FlowerStackState \<Rightarrow> FlowerStackState" where
  "checkCompletion now s =
     (if CompletedNodes s \<ge> ExpectedNodes s
      then s\<lparr> Status := ''running'', CompletionTime := now \<rparr>
      else s)"

definition RegisterServerNode ::
    "FlowerServerNode \<Rightarrow> time \<Rightarrow> manager \<Rightarrow> store_error option \<times> manager" where
  "RegisterServerNode node now m =
     (case m of
        None \<Rightarrow> (Some StackNotInitialized, m)
      | Some s \<Rightarrow>
          (let s1 = s\<lparr> ServerNode := Some node, Status := ''starting'' \<rparr>;
               s2 = (if srv_Status node = ''ready''
                     then checkCompletion now
                            (s1\<lparr> CompletedNodes := wrap64 (CompletedNodes s1 + 1) \<rparr>)
                     else s1)
           in (None, Some s2)))"

definition RegisterClientNode ::
    "FlowerClientNode \<Rightarrow> time \<Rightarrow> manager \<Rightarrow> store_error option \<times> manager" where
  "RegisterClientNode node now m =
     (case m of
        None \<Rightarrow> (Some StackNotInitialized, m)
      | Some s \<Rightarrow>
          (let s1 = s\<lparr> ClientNodes := (ClientNodes s)(cli_NodeID node \<mapsto> node) \<rparr>;
               s2 = (if cli_Status node = ''ready''
                     then checkCompletion now
                            (s1\<lparr> CompletedNodes := wrap64 (CompletedNodes s1 + 1) \<rparr>)
                     else s1)
           in (None, Some s2)))"

definition UpdateServerNodeStatus ::
    "string \<Rightarrow> string \<Rightarrow> time \<Rightarrow> manager \<Rightarrow> store_error option \<times> manager" where
  "UpdateServerNodeStatus nodeID status now m =
     (case m of
        None \<Rightarrow> (Some ServerNodeNotFound, m)
      | Some s \<Rightarrow>
          (case ServerNode s of
             None \<Rightarrow> (Some ServerNodeNotFound, m)
           | Some srv \<Rightarrow>
               (let oldStatus = srv_Status srv;
                    s1 = s\<lparr> ServerNode := Some (srv\<lparr> srv_Status := status \<rparr>) \<rparr>;
                    s2 = (if oldStatus \<noteq> ''ready'' \<and> status = ''ready''
                          then checkCompletion now
                                 (s1\<lparr> CompletedNodes := wrap64 (CompletedNodes s1 + 1) \<rparr>)
                          else s1)
                in (None, Some s2))))"

definition UpdateClientNodeStatus ::
    "string \<Rightarrow> string \<Rightarrow> time \<Rightarrow> manager \<Rightarrow> store_error option \<times> manager" where
  "UpdateClientNodeStatus nodeID status now m =
     (case m of
        None \<Rightarrow> (Some StackNotInitialized, m)
      | Some s \<Rightarrow>
          (case ClientNodes s nodeID of
             None \<Rightarrow> (Some (ClientNodeNotFound nodeID), m)
           | Some node \<Rightarrow>
               (let oldStatus = cli_Status node;
                    s1 = s\<lparr> ClientNodes :=
                              (ClientNodes s)(nodeID \<mapsto> node\<lparr> cli_Status := status \<rparr>) \<rparr>;
                    s2 = (if oldStatus \<noteq> ''ready'' \<and> status = ''ready''
                          then checkCompletion now
                                 (s1\<lparr> CompletedNodes := wrap64 (CompletedNodes s1 + 1) \<rparr>)
                          else s1)
                in (None, Some s2))))"

text \<open>
  \<open>GetState\<close> builds a fresh copy field by field, the server node and every client
  node included; on values the copy is the state itself.
\<close>

definition GetState :: "manager \<Rightarrow> FlowerStackState option" where
  "GetState m =
     (case m of
        None \<Rightarrow> None
      | Some s \<Rightarrow>
          Some \<lparr> JobID = JobID s,
                 Status = Status s,
                 NumNodes = NumNodes s,
                 ServerNode = (case ServerNode s of None \<Rightarrow> None | Some srv \<Rightarrow> Some srv),
                 ClientNodes = (\<lambda>k. case ClientNodes s k of None \<Rightarrow> None | Some v \<Rightarrow> Some v),
                 StartTime = StartTime s,
                 CompletionTime = CompletionTime s,
                 ExpectedNodes = ExpectedNodes s,
                 CompletedNodes = CompletedNodes s \<rparr>)"

definition ClearState :: "manager \<Rightarrow> manager" where
  "ClearState m = None"

definition IsStackRunning :: "manager \<Rightarrow> bool" where
  "IsStackRunning m =
     (case m of
        None \<Rightarrow> False
      | Some s \<Rightarrow> Status s = ''starting'' \<or> Status s = ''running'')"

text \<open>
  The four mutating methods of the store that a registration or a status update can
  reach, as one datatype, and a run of them, each with the clock reading of its call.
  A call that returns an error leaves the manager as it was, and the run goes on, as
  the HTTP server does after answering 500.
\<close>

datatype store_op =
  RegServer FlowerServerNode
  | RegClient FlowerClientNode
  | UpdServer string string
  | UpdClient string string

fun apply_op :: "store_op \<Rightarrow> time \<Rightarrow> manager \<Rightarrow> store_error option \<times> manager" where
  "apply_op (RegServer node) now m = RegisterServerNode node now m"
| "apply_op (RegClient node) now m = RegisterClientNode node now m"
| "apply_op (UpdServer nodeID status) now m = UpdateServerNodeStatus nodeID status now m"
| "apply_op (UpdClient nodeID status) now m = UpdateClientNodeStatus nodeID status now m"

fun run_ops :: "(store_op \<times> time) list \<Rightarrow> manager \<Rightarrow> manager" where
  "run_ops [] m = m"
| "run_ops ((op, now) # rest) m = run_ops rest (snd (apply_op op now m))"

text \<open>The statuses a reader sees after each call of a run, the starting one first.\<close>

fun status_trace :: "(store_op \<times> time) list \<Rightarrow> manager \<Rightarrow> string option list" where
  "status_trace [] m = [map_option Status m]"
| "status_trace ((op, now) # rest) m =
     map_option Status m # status_trace rest (snd (apply_op op now m))"

text \<open>How often a trace of statuses goes from a status other than running to running.\<close>

fun entries_into_running :: "string option list \<Rightarrow> nat" where
  "entries_into_running (a # b # rest) =
     (if a \<noteq> Some ''running'' \<and> b = Some ''running'' then 1 else 0)
       + entries_into_running (b # rest)"
| "entries_into_running _ = 0"

text \<open>
  The server registration endpoint builds every node it hands to \<open>RegisterServerNode\<close>
  with status ready. A call of a run is of that kind when it is no server registration
  or one with a ready node.
\<close>

fun ready_server_registration :: "store_op \<times> time \<Rightarrow> bool" where
  "ready_server_registration (RegServer node, now) = (srv_Status node = ''ready'')"
| "ready_server_registration (other, now) = True"

section \<open>The control API (HTTP handlers)\<close>

text \<open>
  The coordinator keeps two package-level variables: the stack manager and the id of
  the current job. A handler is a function from the coordinator's state to its answer,
  the new state and the scheduler commands it ran, in order. The results of the
  environment (temp directory, file write, \<open>sbatch\<close>, \<open>scancel\<close>, clock) are the fields
  of \<open>handler_env\<close>. A request body that \<open>json.Decode\<close> rejects is \<open>None\<close>.
\<close>

datatype http_method = GET | POST | DELETE | OtherMethod

record SpinRequest =
  req_NumNodes :: int
  req_Partition :: string
  req_Memory :: string
  req_TimeLimit :: string

record ClientRegisterRequest =
  creq_IP :: string
  creq_Port :: int

record SpinResponse =
  resp_Success :: bool
  resp_JobID :: string
  resp_Message :: string
  resp_State :: "FlowerStackState option"

datatype body =
  SpinBody SpinResponse
  | MapBody "(string \<times> string) list"
  | TextBody string

text \<open>
  A handler either writes a response (status code and body) or panics: Go panics on
  reading a field through a nil pointer, and the HTTP server then drops the connection
  without an answer.
\<close>

datatype outcome =
  Responded nat body
  | Panicked

datatype sched_call =
  Sbatch string
  | Scancel string

record coordinator =
  stackManager :: manager
  currentJobID :: string

record handler_env =
  env_now :: time
  env_tempDir :: "string option"
  env_scriptPath :: "string \<Rightarrow> time \<Rightarrow> string"
  env_writeFile :: "string option"
  env_sbatch :: "string \<times> string option"
  env_parseJobID :: "string \<Rightarrow> string"
  env_scancel :: "string \<Rightarrow> string option"

text \<open>
  \<open>env_tempDir\<close> is the result of \<open>GetFloraGoTempDir\<close> (\<open>None\<close>: it failed);
  \<open>env_scriptPath\<close> joins the directory and the file name that carries the Unix time;
  \<open>env_writeFile\<close> and the second component of \<open>env_sbatch\<close> are the error of the
  call, if any; the first component of \<open>env_sbatch\<close> is the combined output of the
  command; \<open>env_scancel\<close> gives the error of cancelling a job id, if any.
  \<open>env_parseJobID\<close> stands for \<open>parseJobID\<close>, which reads the token after the literal
  \<open>Submitted batch job\<close> with \<open>fmt.Sscanf\<close> and trims it. The text of the job script
  does not reach any decision of the handler and \<open>createFlowerStackScript\<close> returns a
  nil error on every path, so the branch of the handler for its error cannot be taken
  and has no counterpart below.
\<close>

definition failure :: "string \<Rightarrow> body" where
  "failure msg =
     SpinBody \<lparr> resp_Success = False, resp_JobID = [], resp_Message = msg, resp_State = None \<rparr>"

definition handleSpinUp ::
    "handler_env \<Rightarrow> SpinRequest option \<Rightarrow> coordinator
       \<Rightarrow> outcome \<times> coordinator \<times> sched_call list" where
  "handleSpinUp env decoded c =
     (case decoded of
        None \<Rightarrow> (Responded 400 (failure ''Invalid request body''), c, [])
      | Some req \<Rightarrow>
          if req_NumNodes req < 1
          then (Responded 400 (failure ''num_nodes must be at least 1''), c, [])
          else if IsStackRunning (stackManager c)
          then (Responded 409
                  (SpinBody \<lparr> resp_Success = False, resp_JobID = [],
                              resp_Message = ''A Flower stack is already running'',
                              resp_State = GetState (stackManager c) \<rparr>),
                c, [])
          else
            (case env_tempDir env of
               None \<Rightarrow>
                 (Responded 500 (failure ''Failed to access temp directory''),
                  c\<lparr> stackManager := ClearState (stackManager c) \<rparr>, [])
             | Some floragoTmpDir \<Rightarrow>
                 (let scriptPath = env_scriptPath env floragoTmpDir (env_now env) in
                  case env_writeFile env of
                    Some err \<Rightarrow>
                      (Responded 500 (failure ''Failed to write job script''),
                       c\<lparr> stackManager := ClearState (stackManager c) \<rparr>, [])
                  | None \<Rightarrow>
                      (case env_sbatch env of
                         (output, Some err) \<Rightarrow>
                           (Responded 500 (failure (''Failed to submit job: '' @ err)),
                            c\<lparr> stackManager := ClearState (stackManager c) \<rparr>,
                            [Sbatch scriptPath])
                       | (output, None) \<Rightarrow>
                           (let jobID = env_parseJobID env output;
                                c' = c\<lparr> currentJobID := jobID,
                                        stackManager :=
                                          InitializeStack jobID (req_NumNodes req) (env_now env)
                                            (stackManager c) \<rparr>
                            in (Responded 200
                                  (SpinBody \<lparr> resp_Success = True, resp_JobID = jobID,
                                     resp_Message =
                                       ''Flower stack job '' @ jobID @ '' submitted successfully'',
                                     resp_State = GetState (stackManager c') \<rparr>),
                                c', [Sbatch scriptPath]))))))"

definition handleSpinStatus :: "coordinator \<Rightarrow> outcome \<times> coordinator \<times> sched_call list" where
  "handleSpinStatus c =
     (case GetState (stackManager c) of
        None \<Rightarrow> (Panicked, c, [])
      | Some state \<Rightarrow>
          (Responded 200
             (SpinBody \<lparr> resp_Success = True, resp_JobID = currentJobID c,
                         resp_Message = ''Stack status: '' @ Status state,
                         resp_State = Some state \<rparr>),
           c, []))"

definition handleSpinDown ::
    "handler_env \<Rightarrow> coordinator \<Rightarrow> outcome \<times> coordinator \<times> sched_call list" where
  "handleSpinDown env c =
     (if currentJobID c = []
      then (Responded 404 (failure ''No Flower stack is currently running''), c, [])
      else
        (case env_scancel env (currentJobID c) of
           Some err \<Rightarrow>
             (Responded 500 (failure (''Failed to cancel job: '' @ err)), c,
              [Scancel (currentJobID c)])
         | None \<Rightarrow>
             (let oldJobID = currentJobID c in
              (Responded 200
                 (SpinBody \<lparr> resp_Success = True, resp_JobID = oldJobID,
                    resp_Message =
                      ''Flower stack job '' @ oldJobID @ '' cancelled successfully'',
                    resp_State = None \<rparr>),
               c\<lparr> stackManager := ClearState (stackManager c), currentJobID := [] \<rparr>,
               [Scancel oldJobID]))))"

definition makeSpinHandler ::
    "handler_env \<Rightarrow> http_method \<Rightarrow> SpinRequest option \<Rightarrow> coordinator
       \<Rightarrow> outcome \<times> coordinator \<times> sched_call list" where
  "makeSpinHandler env method decoded c =
     (case method of
        POST \<Rightarrow> handleSpinUp env decoded c
      | GET \<Rightarrow> handleSpinStatus c
      | DELETE \<Rightarrow> handleSpinDown env c
      | OtherMethod \<Rightarrow> (Responded 405 (TextBody (''Method not allowed'' @ [newline])), c, []))"

fun error_text :: "store_error \<Rightarrow> string" where
  "error_text StackNotInitialized = ''stack not initialized''"
| "error_text ServerNodeNotFound = ''server node not found''"
| "error_text (ClientNodeNotFound nodeID) = ''client node not found: '' @ nodeID"

text \<open>
  The client registration handler builds the node from the request: the node id is
  \<open>client-\<close> followed by the IP, the status is ready, the other fields keep Go's zero
  values. The handler reads the clock for \<open>StartedAt\<close> (\<open>now\<close>); the store reads it
  again in its completion check (\<open>now'\<close>).
\<close>

definition makeFlowerClientHandler ::
    "time \<Rightarrow> time \<Rightarrow> http_method \<Rightarrow> ClientRegisterRequest option \<Rightarrow> coordinator
       \<Rightarrow> outcome \<times> coordinator" where
  "makeFlowerClientHandler now now' method decoded c =
     (if method \<noteq> POST then (Responded 405 (TextBody (''Method not allowed'' @ [newline])), c)
      else
        (case decoded of
           None \<Rightarrow> (Responded 400 (MapBody [(''error'', ''Invalid request'')]), c)
         | Some req \<Rightarrow>
             (let clientNode =
                    \<lparr> cli_NodeID = ''client-'' @ creq_IP req,
                      cli_Hostname = [],
                      cli_IP = creq_IP req,
                      cli_SupernodeAddress = [],
                      cli_ClientAppIOAPIPort = 0,
                      cli_SuperexecAddress = [],
                      cli_Status = ''ready'',
                      cli_StartedAt = now \<rparr>
              in case RegisterClientNode clientNode now' (stackManager c) of
                   (Some err, m) \<Rightarrow>
                     (Responded 500 (MapBody [(''error'', error_text err)]),
                      c\<lparr> stackManager := m \<rparr>)
                 | (None, m) \<Rightarrow>
                     (Responded 200 (MapBody [(''status'', ''registered'')]),
                      c\<lparr> stackManager := m \<rparr>))))"


section \<open>The proxy controller (CaddyInstaller)\<close>

text \<open>
  \<open>show_int\<close> is the verb \<open>%d\<close> of \<open>fmt.Sprintf\<close>: the decimal digits, with a minus
  sign for a negative number.
\<close>

definition digit_char :: "nat \<Rightarrow> char" where
  "digit_char d = ''0123456789'' ! d"

fun show_nat :: "nat \<Rightarrow> string" where
  "show_nat n = (if n < 10 then [digit_char n] else show_nat (n div 10) @ [digit_char (n mod 10)])"

declare show_nat.simps [simp del]

definition show_int :: "int \<Rightarrow> string" where
  "show_int i = (if i < 0 then CHR ''-'' # show_nat (nat (- i)) else show_nat (nat i))"

text \<open>\<open>strings.Join\<close> and \<open>strings.Contains\<close>.\<close>

fun Join :: "string list \<Rightarrow> string \<Rightarrow> string" where
  "Join [] sep = []"
| "Join [x] sep = x"
| "Join (x # y # ys) sep = x @ sep @ Join (y # ys) sep"

fun Contains :: "string \<Rightarrow> string \<Rightarrow> bool" where
  "Contains [] substr = (substr = [])"
| "Contains (c # cs) substr = (prefix substr (c # cs) \<or> Contains cs substr)"

text \<open>
  The file is read with a \<open>bufio.Scanner\<close> and its default split function
  \<open>ScanLines\<close>: the content is cut at every line feed, a last piece without line feed
  is a line if it is not empty, and one trailing carriage return is dropped from each
  line. The scanner's buffer holds at most 64 KiB: a piece of more than 65535 bytes
  ends the scan with the error \<open>token too long\<close>, which \<open>AddReverseProxy\<close> returns
  after the loop.
\<close>

fun raw_lines :: "string \<Rightarrow> string list" where
  "raw_lines [] = []"
| "raw_lines (c # cs) =
     (if c = newline then [] # raw_lines cs
      else (case raw_lines cs of [] \<Rightarrow> [c] # [] | l # ls \<Rightarrow> (c # l) # ls))"

definition dropCR :: "string \<Rightarrow> string" where
  "dropCR l = (if l \<noteq> [] \<and> last l = carriage_return then butlast l else l)"

definition file_lines :: "string \<Rightarrow> string list" where
  "file_lines content = map dropCR (raw_lines content)"

datatype scan_error = ErrTooLong

definition ScanLines :: "string \<Rightarrow> scan_error + string list" where
  "ScanLines content =
     (if list_ex (\<lambda>l. length l > 65535) (raw_lines content) then Inl ErrTooLong
      else Inr (file_lines content))"

text \<open>
  The Caddyfile is the one file the proxy controller owns: \<open>None\<close> when it cannot be
  opened, its content otherwise. Each call meets its own environment: whether the
  home directory, and so the path of the file, can be found, and whether the write
  succeeds. A write that fails leaves whatever it leaves (\<open>os.WriteFile\<close> truncates
  the file before writing).
\<close>

datatype write_outcome =
  WriteOk
  | WriteFailed "string option"

record caddy_io =
  io_pathError :: bool
  io_write :: write_outcome

datatype caddy_error =
  CaddyfilePathError
  | OpenError
  | ReadError
  | WriteError

definition proxyLabel :: "int \<Rightarrow> string" where
  "proxyLabel localPort = ''# Flower Control API - Port '' @ show_int localPort"

definition block_lines :: "int \<Rightarrow> string \<Rightarrow> int \<Rightarrow> string list" where
  "block_lines localPort targetAddress targetPort =
     [proxyLabel localPort,
      '':'' @ show_int localPort @ '' {'',
      tab # ''reverse_proxy '' @ targetAddress @ '':'' @ show_int targetPort,
      ''}'']"

definition proxyConfig :: "int \<Rightarrow> string \<Rightarrow> int \<Rightarrow> string" where
  "proxyConfig localPort targetAddress targetPort =
     newline # proxyLabel localPort @
     newline # '':'' @ show_int localPort @ '' {'' @
     newline # tab # ''reverse_proxy '' @ targetAddress @ '':'' @ show_int targetPort @
     newline # ''}'' @ [newline]"

definition AddReverseProxy ::
    "caddy_io \<Rightarrow> int \<Rightarrow> string \<Rightarrow> int \<Rightarrow> string option \<Rightarrow> caddy_error option \<times> string option" where
  "AddReverseProxy io localPort targetAddress targetPort file =
     (if io_pathError io then (Some CaddyfilePathError, file)
      else
        (case file of
           None \<Rightarrow> (Some OpenError, file)
         | Some content \<Rightarrow>
             (case ScanLines content of
                Inl err \<Rightarrow> (Some ReadError, file)
              | Inr lines \<Rightarrow>
                  if list_ex (\<lambda>line. Contains line (proxyLabel localPort)) lines
                  then (None, file)
                  else
                    (let newContent =
                           Join lines [newline] @ proxyConfig localPort targetAddress targetPort
                     in case io_write io of
                          WriteOk \<Rightarrow> (None, Some newContent)
                        | WriteFailed left \<Rightarrow> (Some WriteError, left)))))"

definition GetCaddyfileTemplate :: string where
  "GetCaddyfileTemplate =
     ''{'' @ newline # tab # ''# Global options'' @
     newline # tab # ''admin localhost:2019'' @
     newline # tab # ''auto_https off'' @
     newline # ''}'' @ [newline]"

text \<open>A run of calls, each with its environment, port, target address and target port.\<close>

type_synonym route_call = "caddy_io \<times> int \<times> string \<times> int"

fun add_routes :: "route_call list \<Rightarrow> string option \<Rightarrow> string option" where
  "add_routes [] file = file"
| "add_routes ((io, localPort, targetAddress, targetPort) # rest) file =
     add_routes rest (snd (AddReverseProxy io localPort targetAddress targetPort file))"

text \<open>
  A call is \<^emph>\<open>plain\<close> when its write succeeds and its target address holds no line
  feed.
\<close>

fun plain_call :: "route_call \<Rightarrow> bool" where
  "plain_call (io, localPort, targetAddress, targetPort) =
     (io_write io = WriteOk \<and> newline \<notin> set targetAddress)"

text \<open>
  The marker lines of a port in a file: the lines that read as the marker of that
  port, carriage returns at the end aside (the scanner drops one of them each time the
  file is read and written back). Each route block starts with its marker line, so
  this is the number of route blocks of the port.
\<close>

definition stripCRs :: "string \<Rightarrow> string" where
  "stripCRs l = rev (dropWhile (\<lambda>c. c = carriage_return) (rev l))"

definition is_marker :: "int \<Rightarrow> string \<Rightarrow> bool" where
  "is_marker localPort l = (stripCRs l = proxyLabel localPort)"

definition route_blocks :: "int \<Rightarrow> string option \<Rightarrow> nat" where
  "route_blocks localPort file =
     (case file of
        None \<Rightarrow> 0
      | Some content \<Rightarrow> length (filter (is_marker localPort) (file_lines content)))"

definition ok_io :: caddy_io where
  "ok_io = \<lparr> io_pathError = False, io_write = WriteOk \<rparr>"


section \<open>The client agent (flowerclient)\<close>

text \<open>
  The agent is a process: what it does to the outside is the sequence of its events
  (HTTP requests, attempts to start a process, pauses, lines printed by \<open>fmt.Printf\<close>)
  and its exit code, \<open>None\<close> when it never exits. The messages of the logger are left out.
  \<open>logger.Fatal\<close> ends the process with exit code 1.
\<close>

datatype agent_event =
  HttpGet string
  | HttpPost string string
  | StartProcess string "string list"
  | Sleep nat
  | Print string

text \<open>
  One poll of the coordinator: no usable answer (a network error or a status other
  than 200), or the body of a 200 answer, \<open>None\<close> when it is not the JSON of a server
  node.
\<close>

datatype poll_reply =
  NoReply
  | Reply "FlowerServerNode option"

text \<open>
  \<open>waitForServerNode\<close> polls until the deadline, five minutes after its start. The
  list holds the answers to the polls that start before the deadline: when it is used
  up, the deadline has passed.
\<close>

fun waitForServerNode ::
    "string \<Rightarrow> poll_reply list \<Rightarrow> agent_event list \<times> FlowerServerNode option" where
  "waitForServerNode apiServerURL [] = ([], None)"
| "waitForServerNode apiServerURL (r # rs) =
     (let get = HttpGet (apiServerURL @ ''/api/flower/server'');
          ready = (case r of
                     Reply (Some serverNode) \<Rightarrow>
                       if srv_Status serverNode = ''ready'' then Some serverNode else None
                   | _ \<Rightarrow> None)
      in case ready of
           Some serverNode \<Rightarrow> ([get], Some serverNode)
         | None \<Rightarrow>
             (case waitForServerNode apiServerURL rs of
                (events, result) \<Rightarrow> (get # Sleep 2 # events, result)))"

definition registerClientNode ::
    "string \<Rightarrow> FlowerClientNode \<Rightarrow> agent_event list \<times> string option" where
  "registerClientNode apiServerURL node =
     ([Print (''Would register client node to '' @ apiServerURL @ [newline])], None)"

record client_env =
  cenv_flag :: string
  cenv_FLORAGO_API_SERVER :: string
  cenv_hostname :: string
  cenv_ip :: string
  cenv_homeDir :: string
  cenv_clientAppIOAPIPort :: int
  cenv_polls :: "poll_reply list"
  cenv_supernodeStart :: "string option"
  cenv_superexecStart :: "string option"
  cenv_firstExit :: "string option option"
  cenv_now :: time

text \<open>
  \<open>cenv_flag\<close> is the value of \<open>--api-server\<close>; \<open>cenv_clientAppIOAPIPort\<close> the result
  of \<open>getEnvInt\<close>; \<open>cenv_supernodeStart\<close> and \<open>cenv_superexecStart\<close> the error of
  starting the daemon, if any; \<open>cenv_firstExit\<close> tells how the first daemon to exit
  ends: \<open>None\<close> when neither ever exits, \<open>Some None\<close> for a normal exit, \<open>Some (Some e)\<close>
  for the error \<open>e\<close>.
\<close>

definition flowerclientCmd :: "client_env \<Rightarrow> agent_event list \<times> nat option" where
  "flowerclientCmd env =
     (let hostname = cenv_hostname env;
          nodeID = ''client-'' @ hostname;
          ip = cenv_ip env;
          apiServerURL =
            (if cenv_flag env = [] then cenv_FLORAGO_API_SERVER env else cenv_flag env)
      in
      if apiServerURL = [] then ([], Some 1)
      else
        (case waitForServerNode apiServerURL (cenv_polls env) of
           (polling, None) \<Rightarrow> (polling, Some 1)
         | (polling, Some serverNode) \<Rightarrow>
             (let clientAppIOAPIPort = cenv_clientAppIOAPIPort env;
                  supernode =
                    StartProcess
                      (cenv_homeDir env @ ''/.florago/venv/flowerai-env/bin/flower-supernode'')
                      [''--insecure'',
                       ''--superlink='' @ srv_IP serverNode @ '':''
                         @ show_int (srv_FleetAPIPort serverNode)];
                  superexec =
                    StartProcess
                      (cenv_homeDir env @ ''/.florago/venv/flowerai-env/bin/flower-superexec'')
                      [''--insecure'', ''--plugin-type=clientapp'',
                       ''--grpc-address='' @ ip @ '':'' @ show_int clientAppIOAPIPort]
              in
              case cenv_supernodeStart env of
                Some err \<Rightarrow> (polling @ [supernode], Some 1)
              | None \<Rightarrow>
                  (case cenv_superexecStart env of
                     Some err \<Rightarrow> (polling @ [supernode, Sleep 5, superexec], Some 1)
                   | None \<Rightarrow>
                       (let clientNode =
                              \<lparr> cli_NodeID = nodeID,
                                cli_Hostname = hostname,
                                cli_IP = ip,
                                cli_SupernodeAddress = ip @ '':'' @ show_int 9092,
                                cli_ClientAppIOAPIPort = clientAppIOAPIPort,
                                cli_SuperexecAddress = ip @ '':'' @ show_int clientAppIOAPIPort,
                                cli_Status = ''starting'',
                                cli_StartedAt = cenv_now env \<rparr>;
                            started = polling @ [supernode, Sleep 5, superexec]
                        in
                        case registerClientNode apiServerURL clientNode of
                          (printed, Some err) \<Rightarrow> (started @ printed, Some 1)
                        | (printed, None) \<Rightarrow>
                            (case registerClientNode apiServerURL
                                    (clientNode\<lparr> cli_Status := ''ready'' \<rparr>) of
                               (printed', warned) \<Rightarrow>
                                 (started @ printed @ Sleep 2 # printed',
                                  (case cenv_firstExit env of
                                     None \<Rightarrow> None
                                   | Some None \<Rightarrow> Some 0
                                   | Some (Some exitErr) \<Rightarrow> Some 1))))))))"

fun is_post :: "agent_event \<Rightarrow> bool" where
  "is_post (HttpPost url payload) = True"
| "is_post _ = False"

section \<open>The seed scenarios of the specification\<close>

text \<open>
  The scheduler stub of the seed scenarios answers \<open>sbatch\<close> with a line that begins
  with \<open>Submitted batch job\<close>, single spaces between and after the words, followed by
  the job id. On such an output \<open>parseJobID\<close> yields the bytes after these twenty up
  to the first white space: the verb \<open>%s\<close> stops there and \<open>TrimSpace\<close> finds nothing
  to trim. \<open>stub_parseJobID\<close> is that reading, for outputs of this form in ASCII; it
  is the empty string for any other output.
\<close>

definition is_space :: "char \<Rightarrow> bool" where
  "is_space c =
     (c = CHR '' '' \<or> c = tab \<or> c = newline \<or> c = carriage_return
      \<or> c = CHR 0x0B \<or> c = CHR 0x0C)"

definition stub_parseJobID :: "string \<Rightarrow> string" where
  "stub_parseJobID output =
     (if prefix ''Submitted batch job '' output
      then takeWhile (\<lambda>c. \<not> is_space c) (drop 20 output)
      else [])"

definition seed_env :: "string \<Rightarrow> string option \<Rightarrow> handler_env" where
  "seed_env sbatch_output scancel_error =
     \<lparr> env_now = 100,
       env_tempDir = Some ''/home/user/.florago/tmp'',
       env_scriptPath = (\<lambda>dir t. dir @ ''/flower_stack.sh''),
       env_writeFile = None,
       env_sbatch = (sbatch_output, None),
       env_parseJobID = stub_parseJobID,
       env_scancel = (\<lambda>jobID. scancel_error) \<rparr>"

definition seed_request :: "int \<Rightarrow> SpinRequest" where
  "seed_request n =
     \<lparr> req_NumNodes = n, req_Partition = [], req_Memory = [], req_TimeLimit = [] \<rparr>"

definition fresh_coordinator :: coordinator where
  "fresh_coordinator = \<lparr> stackManager = NewFlowerStackManager, currentJobID = [] \<rparr>"

definition after_spin_up :: "int \<Rightarrow> coordinator" where
  "after_spin_up n =
     fst (snd (makeSpinHandler (seed_env ''Submitted batch job 12345'' None) POST
                 (Some (seed_request n)) fresh_coordinator))"

definition client_post :: "string \<Rightarrow> time \<Rightarrow> coordinator \<Rightarrow> coordinator" where
  "client_post ip now c =
     snd (makeFlowerClientHandler now now POST (Some \<lparr> creq_IP = ip, creq_Port = 9094 \<rparr>) c)"

definition seed_server :: "string \<Rightarrow> FlowerServerNode" where
  "seed_server status =
     \<lparr> srv_NodeID = ''server-10.0.0.1'', srv_Hostname = [], srv_IP = ''10.0.0.1'',
       srv_SuperlinkAddress = [], srv_ServerAppIOAPIPort = 9091, srv_FleetAPIPort = 9092,
       srv_ControlAPIPort = 9093, srv_SuperexecAddress = [], srv_Status = status,
       srv_StartedAt = 0 \<rparr>"

definition seed_client :: "string \<Rightarrow> FlowerClientNode" where
  "seed_client status =
     \<lparr> cli_NodeID = ''client-10.0.0.2'', cli_Hostname = [], cli_IP = ''10.0.0.2'',
       cli_SupernodeAddress = [], cli_ClientAppIOAPIPort = 0, cli_SuperexecAddress = [],
       cli_Status = status, cli_StartedAt = 0 \<rparr>"

definition seed_client_env :: client_env where
  "seed_client_env =
     \<lparr> cenv_flag = [],
       cenv_FLORAGO_API_SERVER = ''http://10.0.0.9:8080'',
       cenv_hostname = ''node2'',
       cenv_ip = ''10.0.0.2'',
       cenv_homeDir = ''/home/user'',
       cenv_clientAppIOAPIPort = 9094,
       cenv_polls = [NoReply, Reply (Some (seed_server ''starting'')),
                     Reply (Some (seed_server ''ready''))],
       cenv_supernodeStart = None,
       cenv_superexecStart = None,
       cenv_firstExit = None,
       cenv_now = 100 \<rparr>"


definition response_code :: "outcome \<Rightarrow> nat option" where
  "response_code out = (case out of Responded code b \<Rightarrow> Some code | Panicked \<Rightarrow> None)"

definition seed_run :: "(store_op \<times> time) list" where
  "seed_run =
     [(RegServer (seed_server ''ready''), 1), (RegClient (seed_client ''ready''), 2)]"

text \<open>
  The stack of job 12345 with one expected client: after the server has registered,
  and after the client has registered as well.
\<close>

definition server_registered_stack :: FlowerStackState where
  "server_registered_stack =
     \<lparr> JobID = ''12345'', Status = ''starting'', NumNodes = 1,
       ServerNode = Some (seed_server ''ready''),
       ClientNodes = Map.empty,
       StartTime = 0, CompletionTime = 0, ExpectedNodes = 2, CompletedNodes = 1 \<rparr>"

definition running_stack :: FlowerStackState where
  "running_stack =
     \<lparr> JobID = ''12345'', Status = ''running'', NumNodes = 1,
       ServerNode = Some (seed_server ''ready''),
       ClientNodes = [''client-10.0.0.2'' \<mapsto> seed_client ''ready''],
       StartTime = 0, CompletionTime = 2, ExpectedNodes = 2, CompletedNodes = 2 \<rparr>"


section \<open>Properties of the stack store\<close>

lemma wrap64_id: "- (2 ^ 63) \<le> x \<Longrightarrow> x < 2 ^ 63 \<Longrightarrow> wrap64 x = x"
  by (simp add: wrap64_def)

lemma option_copy: "(case x of None \<Rightarrow> None | Some v \<Rightarrow> Some v) = x"
  by (cases x) simp_all

lemma GetState_id: "GetState m = m"
proof (cases m)
  case None
  then show ?thesis by (simp add: GetState_def)
next
  case (Some s)
  then show ?thesis by (cases s) (simp add: GetState_def option_copy)
qed

lemma apply_op_Some: "\<exists>s'. snd (apply_op op now (Some s)) = Some s'"
  by (cases op)
     (auto simp: RegisterServerNode_def RegisterClientNode_def UpdateServerNodeStatus_def
        UpdateClientNodeStatus_def Let_def split: option.splits)

lemma checkCompletion_counter [simp]:
  "CompletedNodes (checkCompletion now s) = CompletedNodes s"
  by (simp add: checkCompletion_def)

lemma apply_op_counter:
  assumes "snd (apply_op op now (Some s)) = Some s'"
  shows "CompletedNodes s' = CompletedNodes s
         \<or> CompletedNodes s' = wrap64 (CompletedNodes s + 1)"
  using assms
  by (cases op)
     (auto simp: RegisterServerNode_def RegisterClientNode_def UpdateServerNodeStatus_def
        UpdateClientNodeStatus_def Let_def split: option.splits if_splits)

text \<open>
  Each call adds at most one to the counter, so a run of \<open>n\<close> calls from a counter
  \<open>c\<close> with \<open>c + n\<close> within the range of the machine integer never wraps around.
\<close>

lemma run_ops_counter:
  assumes "0 \<le> CompletedNodes s" "CompletedNodes s + int (length ops) \<le> max_int64"
  shows "\<exists>s'. run_ops ops (Some s) = Some s' \<and> CompletedNodes s \<le> CompletedNodes s'
            \<and> CompletedNodes s' \<le> CompletedNodes s + int (length ops)"
  using assms
proof (induction ops arbitrary: s)
  case Nil
  then show ?case by simp
next
  case (Cons a ops)
  obtain op now where a: "a = (op, now)" by (cases a)
  obtain s1 where s1: "snd (apply_op op now (Some s)) = Some s1"
    using apply_op_Some by blast
  have w: "wrap64 (CompletedNodes s + 1) = CompletedNodes s + 1"
    using Cons.prems by (intro wrap64_id) (auto simp: max_int64_def)
  have c: "CompletedNodes s \<le> CompletedNodes s1 \<and> CompletedNodes s1 \<le> CompletedNodes s + 1"
    using apply_op_counter [OF s1] w by auto
  have "\<exists>s'. run_ops ops (Some s1) = Some s' \<and> CompletedNodes s1 \<le> CompletedNodes s'
            \<and> CompletedNodes s' \<le> CompletedNodes s1 + int (length ops)"
    using Cons.prems c by (intro Cons.IH) auto
  then show ?case using a s1 c by auto
qed

lemmas store_eval = InitializeStack_def RegisterServerNode_def RegisterClientNode_def
  UpdateServerNodeStatus_def UpdateClientNodeStatus_def checkCompletion_def wrap64_def
  seed_server_def seed_client_def seed_run_def Let_def

lemmas seed_eval = after_spin_up_def fresh_coordinator_def seed_request_def seed_env_def
  makeSpinHandler_def handleSpinUp_def handleSpinDown_def IsStackRunning_def
  NewFlowerStackManager_def ClearState_def InitializeStack_def GetState_id client_post_def
  makeFlowerClientHandler_def RegisterClientNode_def checkCompletion_def wrap64_def
  response_code_def stub_parseJobID_def is_space_def newline_def tab_def
  carriage_return_def Let_def

text \<open>
  Claim C10. Between \<open>InitializeStack\<close> and \<open>ClearState\<close> the counter of ready nodes
  never goes down: after any run of fewer than \<open>2^63 - 1\<close> registrations and status
  updates on an initialized stack, the stack is still there, and one more call of
  \<open>RegisterServerNode\<close>, \<open>RegisterClientNode\<close>, \<open>UpdateServerNodeStatus\<close> or
  \<open>UpdateClientNodeStatus\<close> leaves \<open>CompletedNodes\<close> as it is or adds one to it. Only
  \<open>InitializeStack\<close>, which starts again from zero, and \<open>ClearState\<close>, which drops the
  stack, reset it.
\<close>

theorem completed_nodes_non_decreasing:
  assumes "int (length ops) < max_int64"
  shows "\<exists>s s'. run_ops ops (InitializeStack jobID numNodes t0 m0) = Some s
           \<and> snd (apply_op op now (Some s)) = Some s'
           \<and> (CompletedNodes s' = CompletedNodes s \<or> CompletedNodes s' = CompletedNodes s + 1)
           \<and> map_option CompletedNodes (InitializeStack jobID' numNodes' t1 (Some s')) = Some 0
           \<and> ClearState (Some s') = None"
proof -
  let ?i = "\<lparr> JobID = jobID, Status = ''pending'', NumNodes = numNodes, ServerNode = None,
            ClientNodes = Map.empty, StartTime = t0, CompletionTime = 0,
            ExpectedNodes = wrap64 (1 + numNodes), CompletedNodes = 0 \<rparr>"
  have "\<exists>s'. run_ops ops (Some ?i) = Some s' \<and> CompletedNodes ?i \<le> CompletedNodes s'
            \<and> CompletedNodes s' \<le> CompletedNodes ?i + int (length ops)"
    using assms by (intro run_ops_counter) auto
  then obtain s where s: "run_ops ops (InitializeStack jobID numNodes t0 m0) = Some s"
    and b: "0 \<le> CompletedNodes s" "CompletedNodes s < max_int64"
    using assms by (auto simp: InitializeStack_def)
  obtain s' where s': "snd (apply_op op now (Some s)) = Some s'"
    using apply_op_Some by blast
  have "wrap64 (CompletedNodes s + 1) = CompletedNodes s + 1"
    using b by (intro wrap64_id) (auto simp: max_int64_def)
  then have "CompletedNodes s' = CompletedNodes s \<or> CompletedNodes s' = CompletedNodes s + 1"
    using apply_op_counter [OF s'] by auto
  then show ?thesis
    using s s' by (simp add: InitializeStack_def ClearState_def)
qed

theorem completed_nodes_non_decreasing_witness:
  "int (length seed_run) < max_int64
   \<and> (\<exists>s s'. run_ops seed_run (InitializeStack ''12345'' 2 0 None) = Some s
          \<and> snd (apply_op (RegClient (seed_client ''ready'')) 3 (Some s)) = Some s'
          \<and> (CompletedNodes s' = CompletedNodes s \<or> CompletedNodes s' = CompletedNodes s + 1)
          \<and> map_option CompletedNodes (InitializeStack ''12346'' 2 4 (Some s')) = Some 0
          \<and> ClearState (Some s') = None)"
proof -
  have h: "int (length seed_run) < max_int64"
    by (simp add: seed_run_def max_int64_def)
  show ?thesis
    using h completed_nodes_non_decreasing [OF h, of "''12345''" 2 0 None
        "RegClient (seed_client ''ready'')" 3 "''12346''" 2 4]
    by simp
qed

text \<open>
  Claim C5. Two client registrations with the same node id and status ready should
  add one to the counter of ready nodes, not two. \<open>RegisterClientNode\<close> does not look
  at the entry it overwrites (\<open>UpdateClientNodeStatus\<close> does compare the old status):
  after a spin-up for two clients, two identical requests to the client registration
  endpoint from 10.0.0.2 take the counter from 0 to 1 and then to 2.
\<close>

theorem duplicate_client_registration_counts_twice:
  "map_option CompletedNodes (stackManager (after_spin_up 2)) = Some 0
   \<and> map_option CompletedNodes
        (stackManager (client_post ''10.0.0.2'' 101 (after_spin_up 2))) = Some 1
   \<and> map_option CompletedNodes
        (stackManager (client_post ''10.0.0.2'' 102
           (client_post ''10.0.0.2'' 101 (after_spin_up 2)))) = Some 2"
  by (simp add: seed_eval)

text \<open>
  Claim C1. A running stack should have a ready server, only ready clients, as many
  clients as expected and a counter equal to the expected total. After a spin-up for
  one client, two identical client registrations from 10.0.0.2 bring the counter to
  the expected total of 2: the status is running with no server node at all.
\<close>

theorem duplicate_registration_runs_without_server:
  "map_option Status
     (stackManager (client_post ''10.0.0.2'' 102
        (client_post ''10.0.0.2'' 101 (after_spin_up 1)))) = Some ''running''
   \<and> map_option ServerNode
        (stackManager (client_post ''10.0.0.2'' 102
           (client_post ''10.0.0.2'' 101 (after_spin_up 1)))) = Some None
   \<and> map_option CompletedNodes
        (stackManager (client_post ''10.0.0.2'' 102
           (client_post ''10.0.0.2'' 101 (after_spin_up 1)))) = Some 2
   \<and> map_option ExpectedNodes
        (stackManager (client_post ''10.0.0.2'' 102
           (client_post ''10.0.0.2'' 101 (after_spin_up 1)))) = Some 2
   \<and> map_option (dom \<circ> ClientNodes)
        (stackManager (client_post ''10.0.0.2'' 102
           (client_post ''10.0.0.2'' 101 (after_spin_up 1)))) = Some {''client-10.0.0.2''}"
  by (simp add: seed_eval)

text \<open>
  Claim C4, as stated: the completion check sets the status to running and writes the
  completion time only when the status is not yet running. It has no such test. With
  one expected client, server and client register: the status is running, completed
  at instant 2. A further ready registration at instant 3 finds the status running,
  and the completion check writes the completion time again.
\<close>

theorem completion_time_rewritten_while_running:
  "map_option Status (run_ops seed_run (InitializeStack ''12345'' 1 0 None))
     = Some ''running''
   \<and> map_option CompletionTime (run_ops seed_run (InitializeStack ''12345'' 1 0 None))
        = Some 2
   \<and> map_option Status
        (run_ops (seed_run @ [(RegClient (seed_client ''ready''), 3)])
           (InitializeStack ''12345'' 1 0 None)) = Some ''running''
   \<and> map_option CompletionTime
        (run_ops (seed_run @ [(RegClient (seed_client ''ready''), 3)])
           (InitializeStack ''12345'' 1 0 None)) = Some 3"
  by (simp add: store_eval)

text \<open>
  The steps of a run that matter for the status: the expected total never changes; a
  running stack whose counter has reached the expected total stays so under every
  call whose server registration, if it is one, is ready; and a call that enters
  running does so through the completion check.
\<close>

lemma status_trace_hd:
  "status_trace ops m = map_option Status m # tl (status_trace ops m)"
  by (cases ops) auto

lemma entries_Cons_trace:
  "entries_into_running (x # status_trace ops m)
     = (if x \<noteq> Some ''running'' \<and> map_option Status m = Some ''running'' then 1 else 0)
       + entries_into_running (status_trace ops m)"
  by (subst (1 2) status_trace_hd) simp

lemma apply_op_expected:
  assumes "snd (apply_op op now (Some s)) = Some s'"
  shows "ExpectedNodes s' = ExpectedNodes s"
  using assms
  by (cases op)
     (auto simp: RegisterServerNode_def RegisterClientNode_def UpdateServerNodeStatus_def
        UpdateClientNodeStatus_def checkCompletion_def Let_def split: option.splits if_splits)

lemma apply_op_stays_running:
  assumes step: "snd (apply_op op now (Some s)) = Some s'"
    and ready: "ready_server_registration (op, now)"
    and run: "Status s = ''running''" "ExpectedNodes s \<le> CompletedNodes s"
    and range: "0 \<le> CompletedNodes s" "CompletedNodes s < max_int64"
  shows "Status s' = ''running'' \<and> ExpectedNodes s' \<le> CompletedNodes s'"
proof -
  have w: "wrap64 (CompletedNodes s + 1) = CompletedNodes s + 1"
    using range by (intro wrap64_id) (auto simp: max_int64_def)
  show ?thesis
    using step ready run w
    by (cases op)
       (auto simp: RegisterServerNode_def RegisterClientNode_def UpdateServerNodeStatus_def
          UpdateClientNodeStatus_def checkCompletion_def Let_def split: option.splits if_splits)
qed

lemma apply_op_enters_running:
  assumes "snd (apply_op op now (Some s)) = Some s'" "Status s \<noteq> ''running''"
    "Status s' = ''running''"
  shows "ExpectedNodes s' \<le> CompletedNodes s' \<and> CompletionTime s' = now"
  using assms
  by (cases op)
     (auto simp: RegisterServerNode_def RegisterClientNode_def UpdateServerNodeStatus_def
        UpdateClientNodeStatus_def checkCompletion_def Let_def split: option.splits if_splits)

lemma apply_op_range:
  assumes "snd (apply_op op now (Some s)) = Some s'"
    "0 \<le> CompletedNodes s" "CompletedNodes s < max_int64"
  shows "CompletedNodes s \<le> CompletedNodes s' \<and> CompletedNodes s' \<le> CompletedNodes s + 1"
proof -
  have "wrap64 (CompletedNodes s + 1) = CompletedNodes s + 1"
    using assms(2,3) by (intro wrap64_id) (auto simp: max_int64_def)
  then show ?thesis using apply_op_counter [OF assms(1)] by auto
qed

lemma running_stays:
  assumes "list_all ready_server_registration ops"
    "Status s = ''running''" "ExpectedNodes s \<le> CompletedNodes s"
    "0 \<le> CompletedNodes s" "CompletedNodes s + int (length ops) \<le> max_int64"
  shows "entries_into_running (status_trace ops (Some s)) = 0"
  using assms
proof (induction ops arbitrary: s)
  case Nil
  then show ?case by simp
next
  case (Cons a ops)
  obtain op now where a: "a = (op, now)" by (cases a)
  obtain s1 where s1: "snd (apply_op op now (Some s)) = Some s1"
    using apply_op_Some by blast
  have lt: "CompletedNodes s < max_int64" using Cons.prems(5) by simp
  have r: "Status s1 = ''running'' \<and> ExpectedNodes s1 \<le> CompletedNodes s1"
    using s1 Cons.prems a lt by (intro apply_op_stays_running [of op now s]) simp_all
  have c: "CompletedNodes s \<le> CompletedNodes s1 \<and> CompletedNodes s1 \<le> CompletedNodes s + 1"
    using s1 Cons.prems(4) lt by (rule apply_op_range)
  have "entries_into_running (status_trace ops (Some s1)) = 0"
    using Cons.prems r c a by (intro Cons.IH) auto
  then show ?case using a s1 r Cons.prems(2) by (simp add: entries_Cons_trace)
qed

lemma entries_at_most_one:
  assumes "list_all ready_server_registration ops"
    "Status s = ''running'' \<longrightarrow> ExpectedNodes s \<le> CompletedNodes s"
    "0 \<le> CompletedNodes s" "CompletedNodes s + int (length ops) \<le> max_int64"
  shows "entries_into_running (status_trace ops (Some s)) \<le> 1"
  using assms
proof (induction ops arbitrary: s)
  case Nil
  then show ?case by simp
next
  case (Cons a ops)
  obtain op now where a: "a = (op, now)" by (cases a)
  obtain s1 where s1: "snd (apply_op op now (Some s)) = Some s1"
    using apply_op_Some by blast
  have lt: "CompletedNodes s < max_int64" using Cons.prems(4) by simp
  have c: "CompletedNodes s \<le> CompletedNodes s1 \<and> CompletedNodes s1 \<le> CompletedNodes s + 1"
    using s1 Cons.prems(3) lt by (rule apply_op_range)
  show ?case
  proof (cases "Status s = ''running''")
    case True
    then have "entries_into_running (status_trace (a # ops) (Some s)) = 0"
      using Cons.prems by (intro running_stays) auto
    then show ?thesis by simp
  next
    case False
    show ?thesis
    proof (cases "Status s1 = ''running''")
      case True
      then have e: "ExpectedNodes s1 \<le> CompletedNodes s1"
        using apply_op_enters_running [OF s1 False] by simp
      have "entries_into_running (status_trace ops (Some s1)) = 0"
        using Cons.prems True e c a by (intro running_stays) auto
      then show ?thesis using a s1 by (simp add: entries_Cons_trace)
    next
      case False
      have "entries_into_running (status_trace ops (Some s1)) \<le> 1"
        using Cons.prems False c a by (intro Cons.IH) auto
      then show ?thesis using a s1 False by (simp add: entries_Cons_trace)
    qed
  qed
qed

text \<open>
  Claim C4, amended. For every initialized stack and every run of fewer than
  \<open>2^63 - 1\<close> registration and status-update calls whose server registrations are
  ready, the status goes from another value to running at most once. The completion
  check sets the status to running and the completion time to the current instant
  whenever the counter of ready nodes has reached the expected total, also when the
  status is running already. No other operation enters running: a call that takes the
  status from another value to running leaves the counter at or above the expected
  total and the completion time at the instant of the call.
\<close>

theorem running_entered_at_most_once:
  assumes "int (length ops) < max_int64" and "list_all ready_server_registration ops"
  shows "entries_into_running (status_trace ops (InitializeStack jobID numNodes t0 m0)) \<le> 1
         \<and> (ExpectedNodes r \<le> CompletedNodes r \<longrightarrow>
              Status (checkCompletion now r) = ''running''
              \<and> CompletionTime (checkCompletion now r) = now)
         \<and> (snd (apply_op op now' (Some s)) = Some s' \<and> Status s \<noteq> ''running''
              \<and> Status s' = ''running''
            \<longrightarrow> ExpectedNodes s' \<le> CompletedNodes s' \<and> CompletionTime s' = now')"
proof -
  have "entries_into_running (status_trace ops (InitializeStack jobID numNodes t0 m0)) \<le> 1"
    unfolding InitializeStack_def using assms by (intro entries_at_most_one) auto
  then show ?thesis
    using apply_op_enters_running [of op now' s s'] by (simp add: checkCompletion_def)
qed

theorem running_entered_at_most_once_witness:
  "int (length (seed_run @ [(RegClient (seed_client ''ready''), 3)])) < max_int64
   \<and> list_all ready_server_registration (seed_run @ [(RegClient (seed_client ''ready''), 3)])
   \<and> entries_into_running
        (status_trace (seed_run @ [(RegClient (seed_client ''ready''), 3)])
           (InitializeStack ''12345'' 1 0 None)) \<le> 1
   \<and> run_ops seed_run (InitializeStack ''12345'' 1 0 None) = Some running_stack
   \<and> ExpectedNodes running_stack \<le> CompletedNodes running_stack
   \<and> Status (checkCompletion 3 running_stack) = ''running''
   \<and> CompletionTime (checkCompletion 3 running_stack) = 3
   \<and> run_ops [(RegServer (seed_server ''ready''), 1)] (InitializeStack ''12345'' 1 0 None)
        = Some server_registered_stack
   \<and> snd (apply_op (RegClient (seed_client ''ready'')) 2 (Some server_registered_stack))
        = Some running_stack
   \<and> Status server_registered_stack \<noteq> ''running''
   \<and> Status running_stack = ''running''
   \<and> ExpectedNodes running_stack \<le> CompletedNodes running_stack
   \<and> CompletionTime running_stack = 2"
proof -
  have h1: "int (length (seed_run @ [(RegClient (seed_client ''ready''), 3)])) < max_int64"
    by (simp add: seed_run_def max_int64_def)
  have h2: "list_all ready_server_registration
              (seed_run @ [(RegClient (seed_client ''ready''), 3)])"
    by (simp add: seed_run_def seed_server_def)
  have r1: "run_ops seed_run (InitializeStack ''12345'' 1 0 None) = Some running_stack"
    by (simp add: store_eval running_stack_def)
  have r2: "run_ops [(RegServer (seed_server ''ready''), 1)]
              (InitializeStack ''12345'' 1 0 None) = Some server_registered_stack"
    by (simp add: store_eval server_registered_stack_def)
  have h3: "ExpectedNodes running_stack \<le> CompletedNodes running_stack"
    by (simp add: running_stack_def)
  have h4: "snd (apply_op (RegClient (seed_client ''ready'')) 2 (Some server_registered_stack))
              = Some running_stack"
    by (simp add: store_eval running_stack_def server_registered_stack_def)
  have h5: "Status server_registered_stack \<noteq> ''running''"
    by (simp add: server_registered_stack_def)
  have h6: "Status running_stack = ''running''"
    by (simp add: running_stack_def)
  show ?thesis
    using h1 h2 r1 r2 h3 h4 h5 h6
      running_entered_at_most_once [OF h1 h2, of "''12345''" 1 0 None running_stack 3
        "RegClient (seed_client ''ready'')" 2 server_registered_stack running_stack]
    by simp
qed

text \<open>
  The condition on server registrations is about the store alone, whose method
  accepts any node: a server registration that is not ready puts the status of a
  running stack back to starting, and the next ready registration enters running a
  second time.
\<close>

lemma unready_server_registration_reenters_running:
  "entries_into_running
     (status_trace
        (seed_run @ [(RegServer (seed_server ''starting''), 3),
                     (RegClient (seed_client ''ready''), 4)])
        (InitializeStack ''12345'' 1 0 None)) = 2"
  by (simp add: store_eval)

section \<open>Properties of the control API\<close>

text \<open>
  Claim C6. \<open>GET /api/spin\<close> should always answer with success and the snapshot, a
  null state when there is no stack. With no stack (before any spin-up, after a
  tear-down) \<open>GetState\<close> returns nil and the handler reads \<open>state.Status\<close> through
  it: the handler panics and no response is written, whatever the job id and the
  environment.
\<close>

theorem spin_status_panics_without_stack:
  "fst (makeSpinHandler env GET decoded \<lparr> stackManager = None, currentJobID = jobID \<rparr>)
     = Panicked"
  by (simp add: makeSpinHandler_def handleSpinStatus_def GetState_def)




text \<open>
  Claim C9. A tear-down request that finds no job id recorded (no stack has been spun
  up, or the last one was torn down) is answered with 404, runs no scheduler command
  and leaves the coordinator's state as it was.
\<close>

theorem tear_down_without_job_id:
  assumes "currentJobID c = []"
  shows "makeSpinHandler env DELETE decoded c =
           (Responded 404 (failure ''No Flower stack is currently running''), c, [])"
  using assms by (simp add: makeSpinHandler_def handleSpinDown_def)

theorem tear_down_without_job_id_witness:
  "currentJobID fresh_coordinator = []
   \<and> stackManager fresh_coordinator = None
   \<and> makeSpinHandler (seed_env [] None) DELETE None fresh_coordinator =
        (Responded 404 (failure ''No Flower stack is currently running''),
         fresh_coordinator, [])"
  using tear_down_without_job_id [of fresh_coordinator "seed_env [] None" None]
  by (simp add: fresh_coordinator_def NewFlowerStackManager_def)

text \<open>
  Claim C7, as stated: after a tear-down with a job id recorded the store holds no
  stack, whether the cancel command succeeded or failed. When \<open>scancel\<close> fails the
  handler answers 500 and returns before \<open>ClearState\<close>: the stack of job 12345 is
  still in the store and the job id is still recorded.
\<close>

theorem tear_down_keeps_stack_when_cancel_fails:
  "response_code
     (fst (makeSpinHandler (seed_env [] (Some ''exit status 1'')) DELETE None
             (after_spin_up 2))) = Some 500
   \<and> map_option JobID
        (stackManager
           (fst (snd (makeSpinHandler (seed_env [] (Some ''exit status 1'')) DELETE None
                        (after_spin_up 2))))) = Some ''12345''
   \<and> currentJobID
        (fst (snd (makeSpinHandler (seed_env [] (Some ''exit status 1'')) DELETE None
                     (after_spin_up 2)))) = ''12345''"
  by (simp add: seed_eval)

text \<open>
  Claim C7, amended. A tear-down with a job id recorded asks the scheduler to cancel
  that job, once. If the cancel command succeeds, the store is cleared, the job id is
  forgotten and the answer is 200; if it fails, the answer is 500 and the store and
  the job id stay as they were.
\<close>

theorem tear_down_clears_when_cancel_succeeds:
  assumes "currentJobID c \<noteq> []"
  shows "snd (snd (makeSpinHandler env DELETE decoded c)) = [Scancel (currentJobID c)]
         \<and> (env_scancel env (currentJobID c) = None \<longrightarrow>
              stackManager (fst (snd (makeSpinHandler env DELETE decoded c))) = None
              \<and> currentJobID (fst (snd (makeSpinHandler env DELETE decoded c))) = []
              \<and> response_code (fst (makeSpinHandler env DELETE decoded c)) = Some 200)
         \<and> (env_scancel env (currentJobID c) \<noteq> None \<longrightarrow>
              fst (snd (makeSpinHandler env DELETE decoded c)) = c
              \<and> response_code (fst (makeSpinHandler env DELETE decoded c)) = Some 500)"
  using assms
  by (auto simp: makeSpinHandler_def handleSpinDown_def ClearState_def response_code_def
        Let_def split: option.splits)

theorem tear_down_clears_when_cancel_succeeds_witness:
  "currentJobID (after_spin_up 2) \<noteq> []
   \<and> env_scancel (seed_env [] None) (currentJobID (after_spin_up 2)) = None
   \<and> snd (snd (makeSpinHandler (seed_env [] None) DELETE None (after_spin_up 2)))
        = [Scancel (currentJobID (after_spin_up 2))]
   \<and> stackManager (fst (snd (makeSpinHandler (seed_env [] None) DELETE None
                                (after_spin_up 2)))) = None
   \<and> currentJobID (fst (snd (makeSpinHandler (seed_env [] None) DELETE None
                                (after_spin_up 2)))) = []
   \<and> response_code (fst (makeSpinHandler (seed_env [] None) DELETE None (after_spin_up 2)))
        = Some 200
   \<and> env_scancel (seed_env [] (Some ''exit status 1'')) (currentJobID (after_spin_up 2))
        \<noteq> None
   \<and> fst (snd (makeSpinHandler (seed_env [] (Some ''exit status 1'')) DELETE None
                  (after_spin_up 2))) = after_spin_up 2
   \<and> response_code (fst (makeSpinHandler (seed_env [] (Some ''exit status 1'')) DELETE None
                            (after_spin_up 2))) = Some 500"
proof -
  have h: "currentJobID (after_spin_up 2) \<noteq> []"
    by (simp add: seed_eval)
  have ok: "env_scancel (seed_env [] None) (currentJobID (after_spin_up 2)) = None"
    by (simp add: seed_env_def)
  have ko: "env_scancel (seed_env [] (Some ''exit status 1'')) (currentJobID (after_spin_up 2))
              \<noteq> None"
    by (simp add: seed_env_def)
  show ?thesis
    using h ok ko
      tear_down_clears_when_cancel_succeeds [OF h, of "seed_env [] None" None]
      tear_down_clears_when_cancel_succeeds [OF h, of "seed_env [] (Some ''exit status 1'')" None]
    by simp
qed


section \<open>Properties of the proxy controller\<close>

subsection \<open>Decimal rendering\<close>

lemma digit_char_cases:
  assumes "d < 10"
  shows "digit_char d \<in> set ''0123456789''"
proof -
  have "d < length ''0123456789''" using assms by simp
  then show ?thesis unfolding digit_char_def by (rule nth_mem)
qed

lemma digit_char_inj:
  assumes "a < 10" "b < 10" "digit_char a = digit_char b"
  shows "a = b"
proof -
  have d: "distinct ''0123456789''" by simp
  have "a < length ''0123456789''" "b < length ''0123456789''" using assms by simp_all
  then show ?thesis using assms(3) d unfolding digit_char_def
    by (simp only: nth_eq_iff_index_eq)
qed

lemma show_nat_digits: "set (show_nat n) \<subseteq> set ''0123456789''"
proof (induction n rule: show_nat.induct)
  case (1 n)
  show ?case
  proof (cases "n < 10")
    case True
    then show ?thesis using digit_char_cases [of n] by (subst show_nat.simps) simp
  next
    case False
    have "n mod 10 < 10" by simp
    then have "digit_char (n mod 10) \<in> set ''0123456789''" by (rule digit_char_cases)
    then show ?thesis using False 1 by (subst show_nat.simps) simp
  qed
qed

lemma show_nat_nonempty: "show_nat n \<noteq> []"
  by (subst show_nat.simps) simp

lemma show_nat_length: "10 \<le> n \<Longrightarrow> 2 \<le> length (show_nat n)"
  using show_nat_nonempty [of "n div 10"]
  by (subst show_nat.simps) (cases "show_nat (n div 10)"; simp)

lemma show_nat_inj: "show_nat a = show_nat b \<Longrightarrow> a = b"
proof (induction a arbitrary: b rule: show_nat.induct)
  case (1 a)
  show ?case
  proof (cases "a < 10")
    case True
    have b: "b < 10"
    proof (rule ccontr)
      assume "\<not> b < 10"
      then have "2 \<le> length (show_nat b)" by (intro show_nat_length) simp
      moreover have "length (show_nat a) = 1" using True by (subst show_nat.simps) simp
      ultimately show False using 1(2) by simp
    qed
    have "show_nat a = [digit_char a]" using True by (subst show_nat.simps) simp
    moreover have "show_nat b = [digit_char b]" using b by (subst show_nat.simps) simp
    ultimately have "digit_char a = digit_char b" using 1(2) by simp
    then show ?thesis using True b by (intro digit_char_inj)
  next
    case False
    have b: "\<not> b < 10"
    proof
      assume "b < 10"
      then have "length (show_nat b) = 1" by (subst show_nat.simps) simp
      moreover have "2 \<le> length (show_nat a)" using False by (intro show_nat_length) simp
      ultimately show False using 1(2) by simp
    qed
    have ea: "show_nat a = show_nat (a div 10) @ [digit_char (a mod 10)]"
      using False by (subst show_nat.simps) simp
    have eb: "show_nat b = show_nat (b div 10) @ [digit_char (b mod 10)]"
      using b by (subst show_nat.simps) simp
    from ea eb 1(2) have q: "show_nat (a div 10) = show_nat (b div 10)"
      and r: "digit_char (a mod 10) = digit_char (b mod 10)" by simp_all
    have "a div 10 = b div 10" using 1(1) [OF False q] .
    moreover have "a mod 10 = b mod 10" using r by (intro digit_char_inj) simp_all
    moreover have "a = 10 * (a div 10) + a mod 10" "b = 10 * (b div 10) + b mod 10" by simp_all
    ultimately show ?thesis by simp
  qed
qed

lemma show_int_inj: "show_int a = show_int b \<Longrightarrow> a = b"
proof -
  assume e: "show_int a = show_int b"
  have nd: "CHR ''-'' \<notin> set (show_nat n)" for n using show_nat_digits [of n] by auto
  have hd_nat: "show_nat n \<noteq> CHR ''-'' # xs" for n xs
  proof
    assume "show_nat n = CHR ''-'' # xs"
    then have "CHR ''-'' \<in> set (show_nat n)" by simp
    then show False using nd by blast
  qed
  have hd_nat': "CHR ''-'' # xs \<noteq> show_nat n" for n xs
    using hd_nat [of n xs] by (rule not_sym)
  show ?thesis
  proof (cases "a < 0")
    case True
    then have "b < 0" using e hd_nat hd_nat' by (auto simp: show_int_def split: if_splits)
    then show ?thesis using e True show_nat_inj [of "nat (- a)" "nat (- b)"] by (simp add: show_int_def)
  next
    case False
    then have "\<not> b < 0" using e hd_nat hd_nat' by (auto simp: show_int_def split: if_splits)
    then show ?thesis using e False show_nat_inj [of "nat a" "nat b"] by (simp add: show_int_def)
  qed
qed

lemma show_int_chars:
  assumes "c \<in> set (show_int i)"
  shows "c = CHR ''-'' \<or> c \<in> set ''0123456789''"
proof (cases "i < 0")
  case True
  then have "show_int i = CHR ''-'' # show_nat (nat (- i))" by (simp add: show_int_def)
  then have "c = CHR ''-'' \<or> c \<in> set (show_nat (nat (- i)))" using assms by simp
  then show ?thesis using show_nat_digits by blast
next
  case False
  then have "show_int i = show_nat (nat i)" by (simp add: show_int_def)
  then have "c \<in> set (show_nat (nat i))" using assms by simp
  then show ?thesis using show_nat_digits by blast
qed

lemma show_int_nonempty: "show_int i \<noteq> []"
  by (simp add: show_int_def show_nat_nonempty)

lemma show_int_no_newline: "newline \<notin> set (show_int i)"
proof
  assume "newline \<in> set (show_int i)"
  then have "newline = CHR ''-'' \<or> newline \<in> set ''0123456789''" by (rule show_int_chars)
  then show False by (simp add: newline_def)
qed

lemma show_int_last: "last (show_int i) \<noteq> carriage_return"
proof
  assume e: "last (show_int i) = carriage_return"
  have "last (show_int i) \<in> set (show_int i)" using show_int_nonempty by (rule last_in_set)
  then have "carriage_return = CHR ''-'' \<or> carriage_return \<in> set ''0123456789''"
    using e show_int_chars by metis
  then show False by (simp add: carriage_return_def)
qed

subsection \<open>Lines\<close>

lemma raw_lines_line:
  "newline \<notin> set l \<Longrightarrow> raw_lines (l @ newline # rest) = l # raw_lines rest"
  by (induction l) auto

lemma raw_lines_no_newline: "l \<in> set (raw_lines s) \<Longrightarrow> newline \<notin> set l"
proof (induction s arbitrary: l)
  case Nil
  then show ?case by simp
next
  case (Cons c cs)
  then show ?case
    by (cases "raw_lines cs") (auto split: if_splits)
qed

lemma dropCR_subset: "set (dropCR l) \<subseteq> set l"
  by (auto simp: dropCR_def dest: in_set_butlastD)

lemma file_lines_no_newline: "l \<in> set (file_lines s) \<Longrightarrow> newline \<notin> set l"
  using raw_lines_no_newline dropCR_subset by (fastforce simp: file_lines_def)

lemma raw_lines_Join:
  assumes "\<forall>l \<in> set ls. newline \<notin> set l"
  shows "raw_lines (Join ls [newline] @ newline # rest)
           = (if ls = [] then [] # [] else ls) @ raw_lines rest"
  using assms
proof (induction ls "[newline]" rule: Join.induct)
  case 1
  then show ?case by simp
next
  case (2 x)
  then show ?case by (simp add: raw_lines_line)
next
  case (3 x y ys)
  then show ?case by (simp add: raw_lines_line)
qed

lemma stripCRs_dropCR: "stripCRs (dropCR l) = stripCRs l"
proof (cases l rule: rev_cases)
  case Nil
  then show ?thesis by (simp add: dropCR_def)
next
  case (snoc ys y)
  then show ?thesis by (simp add: dropCR_def stripCRs_def)
qed

lemma stripCRs_id: "l \<noteq> [] \<Longrightarrow> last l \<noteq> carriage_return \<Longrightarrow> stripCRs l = l"
  by (cases l rule: rev_cases) (simp_all add: stripCRs_def)

lemma dropCR_id: "l \<noteq> [] \<Longrightarrow> last l \<noteq> carriage_return \<Longrightarrow> dropCR l = l"
  by (simp add: dropCR_def)

lemma stripCRs_prefix: "prefix (stripCRs l) l"
proof -
  have "rev l = takeWhile (\<lambda>c. c = carriage_return) (rev l) @ dropWhile (\<lambda>c. c = carriage_return) (rev l)"
    by simp
  then have "l = rev (dropWhile (\<lambda>c. c = carriage_return) (rev l)) @ rev (takeWhile (\<lambda>c. c = carriage_return) (rev l))"
    by (metis rev_append rev_rev_ident)
  then show ?thesis unfolding stripCRs_def by (metis prefixI)
qed

lemma prefix_Contains: "prefix substr s \<Longrightarrow> Contains s substr"
  by (cases s) auto


subsection \<open>Marker lines and route blocks\<close>

lemma proxyLabel_Cons: "proxyLabel p = CHR ''#'' # '' Flower Control API - Port '' @ show_int p"
  by (simp add: proxyLabel_def)

lemma proxyLabel_no_newline: "newline \<notin> set (proxyLabel p)"
  using show_int_no_newline [of p] by (simp add: proxyLabel_def newline_def)

lemma proxyLabel_last: "last (proxyLabel p) \<noteq> carriage_return"
  using show_int_last [of p] show_int_nonempty [of p] by (simp add: proxyLabel_def)

lemma proxyLabel_inj: "proxyLabel p = proxyLabel p' \<Longrightarrow> p = p'"
  by (simp add: proxyLabel_def show_int_inj)

lemma is_marker_dropCR: "is_marker p (dropCR l) = is_marker p l"
  by (simp add: is_marker_def stripCRs_dropCR)

lemma is_marker_label: "is_marker p (proxyLabel p') = (p = p')"
proof -
  have "stripCRs (proxyLabel p') = proxyLabel p'"
    using proxyLabel_last by (intro stripCRs_id) (simp_all add: proxyLabel_Cons)
  then show ?thesis using proxyLabel_inj by (auto simp: is_marker_def)
qed

lemma is_marker_Contains: "is_marker p l \<Longrightarrow> Contains l (proxyLabel p)"
  using stripCRs_prefix [of l] by (auto simp: is_marker_def intro: prefix_Contains)

lemma is_marker_hd:
  assumes "is_marker p l"
  shows "\<exists>rest. l = CHR ''#'' # rest"
proof -
  have "prefix (proxyLabel p) l" using assms stripCRs_prefix [of l] by (simp add: is_marker_def)
  then show ?thesis by (auto simp: proxyLabel_Cons prefix_def)
qed

lemma block_lines_no_marker:
  "filter (is_marker p') (block_lines p a q) = (if p' = p then [proxyLabel p] else [])"
proof -
  have "\<not> is_marker p' ('':'' @ show_int p @ '' {'')"
    "\<not> is_marker p' (tab # ''reverse_proxy '' @ a @ '':'' @ show_int q)"
    "\<not> is_marker p' ''}''"
    using is_marker_hd [of p'] by (auto simp: tab_def)
  then show ?thesis by (auto simp: block_lines_def is_marker_label)
qed

lemma block_lines_no_newline:
  assumes "newline \<notin> set a" "l \<in> set (block_lines p a q)"
  shows "newline \<notin> set l"
  using assms show_int_no_newline [of p] show_int_no_newline [of q] proxyLabel_no_newline [of p]
  by (auto simp: block_lines_def newline_def tab_def)

lemma block_lines_dropCR: "map dropCR (block_lines p a q) = block_lines p a q"
proof -
  have "dropCR (proxyLabel p) = proxyLabel p"
    using proxyLabel_last by (intro dropCR_id) (simp_all add: proxyLabel_Cons)
  moreover have "dropCR ('':'' @ show_int p @ '' {'') = '':'' @ show_int p @ '' {''"
    by (intro dropCR_id) (simp_all add: carriage_return_def)
  moreover have "dropCR (tab # ''reverse_proxy '' @ a @ '':'' @ show_int q)
                   = tab # ''reverse_proxy '' @ a @ '':'' @ show_int q"
    using show_int_last [of q] show_int_nonempty [of q] by (intro dropCR_id) simp_all
  moreover have "dropCR ''}'' = ''}''"
    by (simp add: dropCR_def carriage_return_def)
  ultimately show ?thesis by (simp add: block_lines_def)
qed

lemma proxyConfig_Join:
  "proxyConfig p a q = newline # Join (block_lines p a q) [newline] @ [newline]"
  by (simp add: proxyConfig_def block_lines_def)

lemma file_lines_new:
  assumes "\<forall>l \<in> set lines. newline \<notin> set l" "newline \<notin> set a"
  shows "file_lines (Join lines [newline] @ proxyConfig p a q)
           = map dropCR (if lines = [] then [] # [] else lines) @ block_lines p a q"
proof -
  have b: "\<forall>l \<in> set (block_lines p a q). newline \<notin> set l"
    using assms(2) block_lines_no_newline by blast
  have ne: "block_lines p a q \<noteq> []" by (simp add: block_lines_def)
  have "raw_lines (Join (block_lines p a q) [newline] @ newline # []) = block_lines p a q"
    using raw_lines_Join [OF b, of "[]"] ne by simp
  then have "raw_lines (Join lines [newline] @ proxyConfig p a q)
               = (if lines = [] then [] # [] else lines) @ block_lines p a q"
    using raw_lines_Join [OF assms(1)] by (simp add: proxyConfig_Join)
  then show ?thesis by (simp add: file_lines_def block_lines_dropCR)
qed

lemma markers_new:
  assumes "\<forall>l \<in> set lines. newline \<notin> set l" "newline \<notin> set a"
  shows "length (filter (is_marker p') (file_lines (Join lines [newline] @ proxyConfig p a q)))
           = length (filter (is_marker p') lines) + (if p' = p then 1 else 0)"
proof -
  have e: "\<not> is_marker p' []" using is_marker_hd by blast
  have "filter (is_marker p') (map dropCR ls) = map dropCR (filter (is_marker p') ls)" for ls
    by (induction ls) (simp_all add: is_marker_dropCR)
  then have "length (filter (is_marker p') (map dropCR (if lines = [] then [] # [] else lines)))
               = length (filter (is_marker p') lines)"
    using e by (simp add: is_marker_dropCR)
  then show ?thesis
    by (simp add: file_lines_new [OF assms] block_lines_no_marker)
qed

lemma no_Contains_no_marker:
  assumes "\<not> list_ex (\<lambda>line. Contains line (proxyLabel p)) lines"
  shows "filter (is_marker p) lines = []"
  using assms is_marker_Contains by (auto simp: list_ex_iff filter_empty_conv)

text \<open>
  What the duplicate check does achieve, for calls whose write succeeds and whose
  target address holds no line feed: no call takes the number of route blocks of a port
  above one; and a call for a port whose marker text is in no line of the file appends
  its block, after which every call for that port leaves the file alone.
\<close>

lemma AddReverseProxy_blocks:
  assumes "io_write io = WriteOk" "newline \<notin> set a" "route_blocks p' cfg \<le> 1"
  shows "route_blocks p' (snd (AddReverseProxy io p a q cfg)) \<le> 1"
proof (cases cfg)
  case None
  then show ?thesis using assms(3) by (simp add: AddReverseProxy_def)
next
  case (Some content)
  let ?lines = "file_lines content"
  have nn: "\<forall>l \<in> set ?lines. newline \<notin> set l" using file_lines_no_newline by blast
  show ?thesis
  proof (cases "\<not> io_pathError io \<and> \<not> list_ex (\<lambda>l. length l > 65535) (raw_lines content)
                  \<and> \<not> list_ex (\<lambda>line. Contains line (proxyLabel p)) ?lines")
    case True
    then have new: "snd (AddReverseProxy io p a q cfg)
                      = Some (Join ?lines [newline] @ proxyConfig p a q)"
      using Some assms(1) by (simp add: AddReverseProxy_def ScanLines_def)
    have z: "p' = p \<Longrightarrow> filter (is_marker p') ?lines = []"
      using True no_Contains_no_marker by blast
    have "route_blocks p' (snd (AddReverseProxy io p a q cfg))
            = length (filter (is_marker p') ?lines) + (if p' = p then 1 else 0)"
      unfolding new by (simp add: route_blocks_def markers_new [OF nn assms(2)])
    moreover have "length (filter (is_marker p') ?lines) \<le> 1"
      using assms(3) Some by (simp add: route_blocks_def)
    ultimately show ?thesis using z by (cases "p' = p") simp_all
  next
    case False
    then have "snd (AddReverseProxy io p a q cfg) = cfg"
      using Some by (auto simp: AddReverseProxy_def ScanLines_def)
    then show ?thesis using assms(3) by simp
  qed
qed

lemma add_routes_blocks:
  assumes "list_all plain_call calls" "route_blocks p cfg \<le> 1"
  shows "route_blocks p (add_routes calls cfg) \<le> 1"
  using assms
proof (induction calls arbitrary: cfg)
  case Nil
  then show ?case by simp
next
  case (Cons call calls)
  obtain io lp a q where call: "call = (io, lp, a, q)" by (cases call)
  have "route_blocks p (snd (AddReverseProxy io lp a q cfg)) \<le> 1"
    using Cons.prems call by (intro AddReverseProxy_blocks) simp_all
  then show ?case using Cons.IH Cons.prems(1) call by simp
qed


lemma first_call_wins:
  assumes io: "\<not> io_pathError io" "io_write io = WriteOk"
    and a: "newline \<notin> set a"
    and scan: "ScanLines content = Inr lines"
    and fresh: "\<not> list_ex (\<lambda>line. Contains line (proxyLabel p)) lines"
  shows "\<exists>content1 pre.
           AddReverseProxy io p a q (Some content) = (None, Some content1)
           \<and> file_lines content1 = pre @ block_lines p a q
           \<and> route_blocks p (Some content1) = 1
           \<and> (\<forall>io' a' q'. snd (AddReverseProxy io' p a' q' (Some content1)) = Some content1)"
proof -
  have lines: "lines = file_lines content"
    using scan by (auto simp: ScanLines_def split: if_splits)
  have nn: "\<forall>l \<in> set lines. newline \<notin> set l"
    unfolding lines using file_lines_no_newline by blast
  let ?c1 = "Join lines [newline] @ proxyConfig p a q"
  let ?pre = "map dropCR (if lines = [] then [] # [] else lines)"
  have r: "AddReverseProxy io p a q (Some content) = (None, Some ?c1)"
    using io scan fresh by (simp add: AddReverseProxy_def)
  have fl: "file_lines ?c1 = ?pre @ block_lines p a q"
    using nn a by (rule file_lines_new)
  have "filter (is_marker p) lines = []"
    using fresh by (rule no_Contains_no_marker)
  then have one: "route_blocks p (Some ?c1) = 1"
    by (simp add: route_blocks_def markers_new [OF nn a])
  have "proxyLabel p \<in> set (file_lines ?c1)"
    unfolding fl by (simp add: block_lines_def)
  moreover have "Contains (proxyLabel p) (proxyLabel p)"
    by (intro prefix_Contains) simp
  ultimately have seen: "list_ex (\<lambda>line. Contains line (proxyLabel p)) (file_lines ?c1)"
    unfolding list_ex_iff by blast
  have "snd (AddReverseProxy io' p a' q' (Some ?c1)) = Some ?c1" for io' a' q'
    using seen by (simp add: AddReverseProxy_def ScanLines_def)
  then show ?thesis using r fl one by blast
qed

lemmas caddy_eval = add_routes.simps AddReverseProxy_def ScanLines_def file_lines_def
  GetCaddyfileTemplate_def dropCR_def newline_def tab_def carriage_return_def
  proxyLabel_def show_int_def show_nat.simps digit_char_def proxyConfig_def ok_io_def
  route_blocks_def is_marker_def stripCRs_def Let_def

text \<open>
  Claim C8. After any sequence of calls the file should hold at most one route block
  per port, and two calls for the same port should leave exactly one block for it, the
  one of the first call. \<open>AddReverseProxy\<close> looks for the marker text of the port
  with \<open>strings.Contains\<close> on every line, and the marker text of port 80 is the
  beginning of the marker line of port 8080. On the default file, once port 8080 has
  its route, the first call for port 80 finds a proxy that "already exists", returns
  without error and writes nothing, and so does the second: the file is the one the
  call for 8080 left, with one block for 8080 and none for port 80.
\<close>

theorem add_route_refused_after_longer_port:
  "route_blocks 8080 (add_routes [(ok_io, 8080, ''10.0.0.1'', 8080)] (Some GetCaddyfileTemplate))
     = 1
   \<and> route_blocks 80 (add_routes [(ok_io, 8080, ''10.0.0.1'', 8080)] (Some GetCaddyfileTemplate))
       = 0
   \<and> AddReverseProxy ok_io 80 ''10.0.0.1'' 80
        (add_routes [(ok_io, 8080, ''10.0.0.1'', 8080)] (Some GetCaddyfileTemplate))
       = (None, add_routes [(ok_io, 8080, ''10.0.0.1'', 8080)] (Some GetCaddyfileTemplate))
   \<and> route_blocks 80
        (add_routes [(ok_io, 8080, ''10.0.0.1'', 8080), (ok_io, 80, ''10.0.0.1'', 80),
                     (ok_io, 80, ''10.0.0.2'', 80)] (Some GetCaddyfileTemplate)) = 0"
  by (simp add: caddy_eval)

text \<open>
  The target address goes into the file as it is. An address that carries line feeds
  can bring a marker line of its own: one call then leaves two marker lines for its
  port.
\<close>

lemma add_route_address_with_line_feeds:
  "route_blocks 9093
     (add_routes
        [(ok_io, 9093,
          ''10.0.0.1'' @ [newline] @ ''# Flower Control API - Port 9093'' @ [newline], 9093)]
        (Some GetCaddyfileTemplate)) = 2"
  by (simp add: caddy_eval)

section \<open>Properties of the client agent\<close>

lemma waitForServerNode_no_post:
  "list_all (\<lambda>e. \<not> is_post e) (fst (waitForServerNode url polls))"
  by (induction polls)
     (auto simp: Let_def split: poll_reply.splits option.splits prod.splits)

text \<open>
  In no environment does the agent send a POST request: \<open>registerClientNode\<close> prints a
  line and returns nil.
\<close>

lemma flowerclientCmd_no_post: "filter is_post (fst (flowerclientCmd env)) = []"
  using waitForServerNode_no_post
          [of "if cenv_flag env = [] then cenv_FLORAGO_API_SERVER env else cenv_flag env"
              "cenv_polls env"]
  by (auto simp: flowerclientCmd_def registerClientNode_def Let_def filter_empty_conv
        list_all_iff split: prod.splits option.splits)

text \<open>
  Claim C2. Once it has seen a ready server and started its two daemons, the agent
  should POST one registration to the coordinator and exit with an error if that
  fails. With the coordinator at \<open>http://10.0.0.9:8080\<close> and a ready server at the
  third poll, the agent polls three times, starts the two daemons and then calls
  \<open>registerClientNode\<close> twice (status starting, then ready); each call only prints
  \<open>Would register client node to ...\<close>. No POST is sent, and the calls cannot fail.
\<close>

theorem client_agent_never_posts:
  "flowerclientCmd seed_client_env =
     ([HttpGet ''http://10.0.0.9:8080/api/flower/server'', Sleep 2,
       HttpGet ''http://10.0.0.9:8080/api/flower/server'', Sleep 2,
       HttpGet ''http://10.0.0.9:8080/api/flower/server'',
       StartProcess ''/home/user/.florago/venv/flowerai-env/bin/flower-supernode''
         [''--insecure'', ''--superlink=10.0.0.1:9092''],
       Sleep 5,
       StartProcess ''/home/user/.florago/venv/flowerai-env/bin/flower-superexec''
         [''--insecure'', ''--plugin-type=clientapp'', ''--grpc-address=10.0.0.2:9094''],
       Print (''Would register client node to http://10.0.0.9:8080'' @ [newline]),
       Sleep 2,
       Print (''Would register client node to http://10.0.0.9:8080'' @ [newline])],
      None)
   \<and> filter is_post (fst (flowerclientCmd seed_client_env)) = []"
  by (simp add: flowerclientCmd_def registerClientNode_def seed_client_env_def
        seed_server_def show_int_def show_nat.simps digit_char_def Let_def)

end
